theory Spec2Isabelle
  imports Main
begin

section \<open>The AstroDate component (src/Pages/Dashboard/AstroDate.jsx)\<close>

text \<open>
  The component keeps five state variables, calls \<^verbatim>\<open>GET /api/discover?dob=<date>\<close>
  once per search and renders the outcome. The embedding follows the source:
  \<^item> the values that \<^verbatim>\<open>response.json()\<close> can hand to the component are a datatype of
    JavaScript values, with the three operations the component applies to them
    (property read, truthiness, conversion to a string inside a template literal);
  \<^item> every call of a state setter, of \<^verbatim>\<open>fetch\<close> and of \<^verbatim>\<open>console.error\<close> is an
    effect; a handler is the list of effects it performs, in program order;
  \<^item> the asynchronous function is cut at its suspension point: the part that runs
    inside the click handler, and the part that runs when the request has settled;
  \<^item> the component in its page is a transition system over the events a user and the
    network can produce.

  Strings are byte lists holding the UTF-8 form of the JavaScript string; the component
  only concatenates strings, compares them and tests them for emptiness, and on
  well-formed text these agree on both representations.
\<close>

subsection \<open>JavaScript values\<close>

text \<open>
  A number is kept by the two observations the component can make of it: whether it is
  zero (the only falsy numbers JSON can produce) and its \<^verbatim>\<open>Number::toString\<close> text.
  An object is the list of its own properties as \<^verbatim>\<open>JSON.parse\<close> left them; \<open>map_of\<close>
  reads a property.
\<close>

datatype jsval =
    JUndefined
  | JNull
  | JBool bool
  | JNum (num_is_zero: bool) (num_text: string)
  | JStr string
  | JArr "jsval list"
  | JObj "(string \<times> jsval) list"

text \<open>
  The two \<^verbatim>\<open>TypeError\<close>s the component's own expressions can raise on such values. Their
  message texts differ between engines, so an engine is a parameter giving the text.
\<close>

datatype type_error = PropertyOfNullish string | ObjectToPrimitive

type_synonym engine = "type_error \<Rightarrow> string"

text \<open>
  What the \<^verbatim>\<open>catch\<close> clause can receive: the \<^verbatim>\<open>Error\<close> thrown at line 30 for a response
  that is not ok, a rejection of \<^verbatim>\<open>fetch\<close> or of \<^verbatim>\<open>response.json()\<close> (an error object
  with a message), or a \<^verbatim>\<open>TypeError\<close> of the component's own expressions.
\<close>

datatype js_error =
    StatusError nat
  | Rejection string
  | TypeError type_error

definition digit_char :: "nat \<Rightarrow> char" where
  "digit_char d = char_of (48 + d)"

fun string_of_nat :: "nat \<Rightarrow> string" where
  "string_of_nat n =
     (if n < 10 then [digit_char n] else string_of_nat (n div 10) @ [digit_char (n mod 10)])"

declare string_of_nat.simps [simp del]

text \<open>\<^verbatim>\<open>err.message\<close>; line 30 builds \<^verbatim>\<open>`Failed with status: ${response.status}`\<close>.\<close>

fun message :: "engine \<Rightarrow> js_error \<Rightarrow> string" where
  "message eng (StatusError n) = ''Failed with status: '' @ string_of_nat n"
| "message eng (Rejection m) = m"
| "message eng (TypeError t) = eng t"

text \<open>
  \<^verbatim>\<open>v.k\<close> for the four names the component reads (\<^verbatim>\<open>apod\<close>, \<^verbatim>\<open>title\<close>, \<^verbatim>\<open>explanation\<close>,
  \<^verbatim>\<open>url\<close>): none of them is defined on the prototype of an object, array, string, number
  or boolean, so only an own property of an object can answer.
\<close>

fun get_prop :: "jsval \<Rightarrow> string \<Rightarrow> js_error + jsval" where
  "get_prop JUndefined k = Inl (TypeError (PropertyOfNullish k))"
| "get_prop JNull k = Inl (TypeError (PropertyOfNullish k))"
| "get_prop (JObj kvs) k = Inr (case map_of kvs k of None \<Rightarrow> JUndefined | Some v \<Rightarrow> v)"
| "get_prop v k = Inr JUndefined"

text \<open>Truthiness, as \<^verbatim>\<open>if (...)\<close> and \<^verbatim>\<open>||\<close> test it.\<close>

fun ToBoolean :: "jsval \<Rightarrow> bool" where
  "ToBoolean JUndefined = False"
| "ToBoolean JNull = False"
| "ToBoolean (JBool b) = b"
| "ToBoolean (JNum z t) = (\<not> z)"
| "ToBoolean (JStr s) = (s \<noteq> [])"
| "ToBoolean (JArr xs) = True"
| "ToBoolean (JObj kvs) = True"

text \<open>
  The conversion a template literal applies to \<^verbatim>\<open>${...}\<close>. An array joins its elements
  with commas, \<^verbatim>\<open>null\<close> and \<^verbatim>\<open>undefined\<close> elements giving the empty string. A parsed
  object answers \<^verbatim>\<open>[object Object]\<close> through \<^verbatim>\<open>Object.prototype.toString\<close>, unless an own
  property named \<^verbatim>\<open>toString\<close> shadows it: that property is never callable, and
  \<^verbatim>\<open>valueOf\<close> yields no primitive, so the conversion throws.
\<close>

fun ToString :: "jsval \<Rightarrow> js_error + string"
  and join :: "jsval list \<Rightarrow> js_error + string" where
  "ToString JUndefined = Inr ''undefined''"
| "ToString JNull = Inr ''null''"
| "ToString (JBool b) = Inr (if b then ''true'' else ''false'')"
| "ToString (JNum z t) = Inr t"
| "ToString (JStr s) = Inr s"
| "ToString (JArr xs) = join xs"
| "ToString (JObj kvs) =
     (if map_of kvs ''toString'' \<noteq> None then Inl (TypeError ObjectToPrimitive)
      else Inr ''[object Object]'')"
| "join [] = Inr []"
| "join (x # xs) =
     (case (if x = JUndefined \<or> x = JNull then Inr [] else ToString x) of
        Inl e \<Rightarrow> Inl e
      | Inr a \<Rightarrow>
          (if xs = [] then Inr a
           else (case join xs of Inl e \<Rightarrow> Inl e | Inr b \<Rightarrow> Inr (a @ '','' @ b))))"

subsection \<open>Component state and effects\<close>

record source =
  uri :: jsval
  title :: jsval

record state =
  selectedDate :: string
  resultText :: "string option"
  sources :: "source list"
  isLoading :: bool
  error :: "string option"

text \<open>Lines 6-17: the first render, \<open>today\<close> being \<^verbatim>\<open>today.toISOString().split('T')[0]\<close>.\<close>

definition initial_state :: "string \<Rightarrow> state" where
  "initial_state today =
     \<lparr>selectedDate = today, resultText = None, sources = [], isLoading = False, error = None\<rparr>"

datatype effect =
    SetSelectedDate string
  | SetResultText "string option"
  | SetSources "source list"
  | SetIsLoading bool
  | SetError "string option"
  | Fetch string
  | ConsoleError js_error

fun apply_effect :: "state \<Rightarrow> effect \<Rightarrow> state" where
  "apply_effect s (SetSelectedDate d) = s\<lparr>selectedDate := d\<rparr>"
| "apply_effect s (SetResultText r) = s\<lparr>resultText := r\<rparr>"
| "apply_effect s (SetSources xs) = s\<lparr>sources := xs\<rparr>"
| "apply_effect s (SetIsLoading b) = s\<lparr>isLoading := b\<rparr>"
| "apply_effect s (SetError e) = s\<lparr>error := e\<rparr>"
| "apply_effect s (Fetch url) = s"
| "apply_effect s (ConsoleError e) = s"

definition apply_effects :: "state \<Rightarrow> effect list \<Rightarrow> state" where
  "apply_effects s es = foldl apply_effect s es"

text \<open>The URLs of the requests an effect list issues.\<close>

fun requests :: "effect list \<Rightarrow> string list" where
  "requests [] = []"
| "requests (Fetch url # es) = url # requests es"
| "requests (e # es) = requests es"

subsection \<open>The request: \<^verbatim>\<open>fetchNasaHistory\<close>, lines 20-55\<close>

text \<open>How the request of line 28 and the body read of line 32 can end.\<close>

datatype body = BadBody string | Json jsval

record response =
  status :: nat
  payload :: body

datatype fetch_outcome = FetchRejected string | Resolved response

text \<open>\<^verbatim>\<open>response.ok\<close>: the status is in the range 200-299.\<close>

definition ok :: "response \<Rightarrow> bool" where
  "ok r = (200 \<le> status r \<and> status r \<le> 299)"

definition em_dash :: string where
  "em_dash = [CHR 0xE2, CHR 0x80, CHR 0x94]"

definition no_data_message :: string where
  "no_data_message = ''No APOD data available for this date.''"

text \<open>Lines 21-28: everything up to the first \<^verbatim>\<open>await\<close>; it runs inside the caller.\<close>

definition fetchNasaHistory_start :: "string \<Rightarrow> effect list" where
  "fetchNasaHistory_start date =
     [SetIsLoading True, SetError None, SetResultText None, SetSources [],
      Fetch (''/api/discover?dob='' @ date)]"

text \<open>
  Lines 34-48, on the parsed body. Every expression that can throw is evaluated before
  the first setter is called, so the block either throws or performs all its effects.
\<close>

definition use_data :: "jsval \<Rightarrow> js_error + effect list" where
  "use_data data =
     (case get_prop data ''apod'' of
        Inl e \<Rightarrow> Inl e
      | Inr apod \<Rightarrow>
          if ToBoolean apod then
            (case get_prop apod ''title'' of
               Inl e \<Rightarrow> Inl e
             | Inr t \<Rightarrow>
                 (case ToString t of
                    Inl e \<Rightarrow> Inl e
                  | Inr ts \<Rightarrow>
                      (case get_prop apod ''explanation'' of
                         Inl e \<Rightarrow> Inl e
                       | Inr x \<Rightarrow>
                           (case ToString x of
                              Inl e \<Rightarrow> Inl e
                            | Inr xs \<Rightarrow>
                                (case get_prop apod ''url'' of
                                   Inl e \<Rightarrow> Inl e
                                 | Inr u \<Rightarrow>
                                     Inr [SetResultText (Some (ts @ '' '' @ em_dash @ '' '' @ xs)),
                                          SetSources
                                            [\<lparr>uri = u,
                                              title = (if ToBoolean t then t
                                                       else JStr ''NASA APOD'')\<rparr>]])))))
          else Inr [SetResultText (Some no_data_message)])"

text \<open>Lines 28-48: the \<^verbatim>\<open>try\<close> block after the request has settled.\<close>

definition try_block :: "fetch_outcome \<Rightarrow> js_error + effect list" where
  "try_block out =
     (case out of
        FetchRejected m \<Rightarrow> Inl (Rejection m)
      | Resolved r \<Rightarrow>
          if \<not> ok r then Inl (StatusError (status r))
          else (case payload r of
                  BadBody m \<Rightarrow> Inl (Rejection m)
                | Json data \<Rightarrow> use_data data))"

text \<open>Lines 28-54: what runs once the request has settled, \<^verbatim>\<open>catch\<close> clause included.\<close>

definition fetchNasaHistory_resume :: "engine \<Rightarrow> fetch_outcome \<Rightarrow> effect list" where
  "fetchNasaHistory_resume eng out =
     (case try_block out of
        Inr es \<Rightarrow> es
      | Inl err \<Rightarrow>
          [ConsoleError err,
           SetError (Some (''Failed to fetch NASA data: '' @ message eng err))])
     @ [SetIsLoading False]"

text \<open>The whole call, for a request that settles with \<open>out\<close>.\<close>

definition fetchNasaHistory :: "engine \<Rightarrow> string \<Rightarrow> fetch_outcome \<Rightarrow> effect list" where
  "fetchNasaHistory eng date out = fetchNasaHistory_start date @ fetchNasaHistory_resume eng out"

subsection \<open>The click handler: \<^verbatim>\<open>handleSearch\<close>, lines 58-64\<close>

definition handleSearch :: "state \<Rightarrow> effect list" where
  "handleSearch s =
     (if selectedDate s \<noteq> [] then fetchNasaHistory_start (selectedDate s)
      else [SetError (Some ''Please select a valid date.'')])"

subsection \<open>Rendering: lines 66-179\<close>

text \<open>
  \<^verbatim>\<open>useMemo\<close> at line 67 keeps the last dependency and the value computed for it, and
  recomputes only when \<^verbatim>\<open>selectedDate\<close> differs. The formatting of
  \<^verbatim>\<open>new Date(selectedDate).toLocaleDateString('en-US', ...)\<close> belongs to the host, so it
  is the parameter \<open>fmt\<close>.
\<close>

type_synonym memo = "(string \<times> string) option"

definition formattedResultDate :: "(string \<Rightarrow> string) \<Rightarrow> memo \<Rightarrow> string \<Rightarrow> string \<times> memo" where
  "formattedResultDate fmt m d =
     (let fresh = (if d \<noteq> [] then fmt d else ''Selected Date'') in
      case m of
        None \<Rightarrow> (fresh, Some (d, fresh))
      | Some (d', v) \<Rightarrow> if d' = d then (v, m) else (fresh, Some (d, fresh)))"

text \<open>Line 104: \<^verbatim>\<open>disabled={isLoading || !selectedDate}\<close>.\<close>

definition submit_disabled :: "state \<Rightarrow> bool" where
  "submit_disabled s = (isLoading s \<or> selectedDate s = [])"

text \<open>
  The element tree by what varies in it. A value given to React as an attribute or a
  child is kept as the value itself.
\<close>

record citation =
  href :: jsval
  tooltip :: jsval
  label :: jsval

record result_panel =
  heading :: string
  shown_result :: string
  citations :: "citation list option"

record view =
  input_value :: string
  button_disabled :: bool
  button_label :: string
  error_panel :: "string option"
  loading_panel :: bool
  result :: "result_panel option"

text \<open>Lines 159-171: one list item per source, \<^verbatim>\<open>source.title || source.uri\<close> shown.\<close>

definition render_source :: "source \<Rightarrow> citation" where
  "render_source src =
     (let shown = (if ToBoolean (title src) then title src else uri src) in
      \<lparr>href = uri src, tooltip = shown, label = shown\<rparr>)"

text \<open>\<^verbatim>\<open>{x && (...)}\<close> on a string or \<^verbatim>\<open>null\<close>: the panel appears for a non-empty string.\<close>

definition shown_text :: "string option \<Rightarrow> string option" where
  "shown_text x = (case x of None \<Rightarrow> None | Some t \<Rightarrow> if t \<noteq> [] then Some t else None)"

definition AstroDate :: "(string \<Rightarrow> string) \<Rightarrow> memo \<Rightarrow> state \<Rightarrow> view \<times> memo" where
  "AstroDate fmt m s =
     (let (date_text, m') = formattedResultDate fmt m (selectedDate s) in
      (\<lparr>input_value = selectedDate s,
        button_disabled = submit_disabled s,
        button_label = (if isLoading s then ''Searching Cosmos...'' else ''Search Discovery''),
        error_panel = shown_text (error s),
        loading_panel = isLoading s,
        result =
          map_option
            (\<lambda>t. \<lparr>heading = ''Discovery for '' @ date_text,
                  shown_result = t,
                  citations = (if length (sources s) > 0
                               then Some (map render_source (sources s)) else None)\<rparr>)
            (shown_text (resultText s))\<rparr>,
       m'))"

text \<open>The memo cell after the component has rendered the states \<open>ss\<close>, first render first.\<close>

definition memo_after :: "(string \<Rightarrow> string) \<Rightarrow> state list \<Rightarrow> memo" where
  "memo_after fmt ss = foldl (\<lambda>m s. snd (AstroDate fmt m s)) None ss"

subsection \<open>The component in its page\<close>

text \<open>
  Besides the component's state the page has the requests that were issued and have not
  settled yet (their URLs, oldest first). Three things can happen: the user picks a
  date (line 97), the user clicks the button (line 103), which reaches \<^verbatim>\<open>handleSearch\<close>
  only when the button is not disabled, and a request in flight settles, which resumes
  \<^verbatim>\<open>fetchNasaHistory\<close>. The state is not touched between the two \<^verbatim>\<open>await\<close>s of lines
  28 and 32, so both are one event.
\<close>

record world =
  ui :: state
  in_flight :: "string list"

datatype event =
    ChangeDate string
  | ClickSubmit
  | RequestSettled nat fetch_outcome

text \<open>The code an event runs, as the effects it performs.\<close>

fun reaction :: "engine \<Rightarrow> world \<Rightarrow> event \<Rightarrow> effect list" where
  "reaction eng w (ChangeDate d) = [SetSelectedDate d]"
| "reaction eng w ClickSubmit = (if submit_disabled (ui w) then [] else handleSearch (ui w))"
| "reaction eng w (RequestSettled i out) =
     (if i < length (in_flight w) then fetchNasaHistory_resume eng out else [])"

text \<open>The requests still in flight once the event has named the one that settled.\<close>

fun still_in_flight :: "world \<Rightarrow> event \<Rightarrow> string list" where
  "still_in_flight w (RequestSettled i out) = take i (in_flight w) @ drop (Suc i) (in_flight w)"
| "still_in_flight w ev = in_flight w"

definition step :: "engine \<Rightarrow> world \<Rightarrow> event \<Rightarrow> world" where
  "step eng w ev =
     \<lparr>ui = apply_effects (ui w) (reaction eng w ev),
      in_flight = still_in_flight w ev @ requests (reaction eng w ev)\<rparr>"

definition initial_world :: "string \<Rightarrow> world" where
  "initial_world today = \<lparr>ui = initial_state today, in_flight = []\<rparr>"

definition run :: "engine \<Rightarrow> world \<Rightarrow> event list \<Rightarrow> world" where
  "run eng w evs = foldl (step eng) w evs"

text \<open>The state a search leaves behind when its request settles with \<open>out\<close>.\<close>

definition search :: "engine \<Rightarrow> state \<Rightarrow> string \<Rightarrow> fetch_outcome \<Rightarrow> state" where
  "search eng s date out = apply_effects s (fetchNasaHistory eng date out)"

text \<open>The values an effect list writes to \<^verbatim>\<open>isLoading\<close>, in program order.\<close>

fun loading_writes :: "effect list \<Rightarrow> bool list" where
  "loading_writes [] = []"
| "loading_writes (SetIsLoading b # es) = b # loading_writes es"
| "loading_writes (e # es) = loading_writes es"

text \<open>
  What holds of the page at every moment: while loading, exactly one request is in
  flight and neither a result nor an error is held; otherwise nothing is in flight and
  a result and an error are not held together.
\<close>

definition lifecycle_inv :: "world \<Rightarrow> bool" where
  "lifecycle_inv w =
     (if isLoading (ui w)
      then resultText (ui w) = None \<and> error (ui w) = None \<and> length (in_flight w) = 1
      else in_flight w = [] \<and> (resultText (ui w) = None \<or> error (ui w) = None))"

subsection \<open>Sample inputs\<close>

text \<open>Concrete values on which the theorems below are exercised.\<close>

definition sample_engine :: engine where
  "sample_engine t =
     (case t of
        PropertyOfNullish k \<Rightarrow> ''data is null''
      | ObjectToPrimitive \<Rightarrow> ''Cannot convert object to primitive value'')"

definition sample_fmt :: "string \<Rightarrow> string" where
  "sample_fmt d = (if d = ''2024-01-15'' then ''Monday, January 15, 2024'' else ''Invalid Date'')"

definition sample_apod :: "(string \<times> jsval) list" where
  "sample_apod =
     [(''title'', JStr ''Andromeda''),
      (''explanation'', JStr ''A spiral galaxy''),
      (''url'', JStr ''https://apod.nasa.gov/m31.jpg'')]"

definition untitled_apod :: "(string \<times> jsval) list" where
  "untitled_apod =
     [(''title'', JStr []),
      (''explanation'', JStr ''A spiral galaxy''),
      (''url'', JStr ''https://apod.nasa.gov/m31.jpg'')]"

definition respond :: "nat \<Rightarrow> jsval \<Rightarrow> fetch_outcome" where
  "respond code data = Resolved \<lparr>status = code, payload = Json data\<rparr>"

definition showing_result :: state where
  "showing_result =
     \<lparr>selectedDate = [], resultText = Some ''Andromeda'', sources = [],
      isLoading = False, error = None\<rparr>"

section \<open>Basic facts\<close>

lemma apply_effects_Nil [simp]: "apply_effects s [] = s"
  by (simp add: apply_effects_def)

lemma apply_effects_Cons [simp]: "apply_effects s (e # es) = apply_effects (apply_effect s e) es"
  by (simp add: apply_effects_def)

lemma loading_writes_append: "loading_writes (es @ fs) = loading_writes es @ loading_writes fs"
  by (induction es rule: loading_writes.induct) simp_all

lemma string_of_nat_500: "string_of_nat 500 = ''500''"
  by code_simp

text \<open>The \<^verbatim>\<open>try\<close> block, when it does not throw, ends in one of two ways.\<close>

lemma use_data_shape:
  assumes "use_data d = Inr es"
  shows "(\<exists>t srcs. es = [SetResultText (Some t), SetSources srcs])
         \<or> es = [SetResultText (Some no_data_message)]"
  using assms by (auto simp: use_data_def split: sum.splits if_splits)

lemma try_block_shape:
  assumes "try_block out = Inr es"
  shows "(\<exists>t srcs. es = [SetResultText (Some t), SetSources srcs])
         \<or> es = [SetResultText (Some no_data_message)]"
  using assms
  by (auto simp: try_block_def dest: use_data_shape
      split: fetch_outcome.splits if_splits body.splits)

text \<open>So the resumed function performs one of three effect lists.\<close>

lemma resume_shape:
  "(\<exists>err. try_block out = Inl err \<and>
       fetchNasaHistory_resume eng out =
         [ConsoleError err, SetError (Some (''Failed to fetch NASA data: '' @ message eng err)),
          SetIsLoading False])
   \<or> (\<exists>t srcs. fetchNasaHistory_resume eng out =
         [SetResultText (Some t), SetSources srcs, SetIsLoading False])
   \<or> fetchNasaHistory_resume eng out = [SetResultText (Some no_data_message), SetIsLoading False]"
proof (cases "try_block out")
  case (Inl err)
  then show ?thesis by (simp add: fetchNasaHistory_resume_def)
next
  case (Inr es)
  from try_block_shape [OF Inr] show ?thesis
    by (auto simp: fetchNasaHistory_resume_def Inr)
qed

section \<open>The lifecycle invariant\<close>

lemma lifecycle_inv_initial: "lifecycle_inv (initial_world today)"
  by (simp add: lifecycle_inv_def initial_world_def initial_state_def)

lemma lifecycle_inv_step:
  assumes "lifecycle_inv w"
  shows "lifecycle_inv (step eng w ev)"
proof (cases ev)
  case (ChangeDate d)
  with assms show ?thesis
    by (simp add: lifecycle_inv_def step_def)
next
  case ClickSubmit
  with assms show ?thesis
    by (auto simp: lifecycle_inv_def step_def submit_disabled_def handleSearch_def
        fetchNasaHistory_start_def)
next
  case (RequestSettled i out)
  show ?thesis
  proof (cases "i < length (in_flight w)")
    case False
    with assms RequestSettled show ?thesis
      by (simp add: lifecycle_inv_def step_def)
  next
    case True
    with assms have clean: "resultText (ui w) = None" "error (ui w) = None"
      and one: "length (in_flight w) = 1"
      by (auto simp: lifecycle_inv_def split: if_splits)
    from True one have gone: "take i (in_flight w) @ drop (Suc i) (in_flight w) = []"
      by simp
    from resume_shape [of out eng] show ?thesis
      using RequestSettled True clean gone
      by (auto simp: lifecycle_inv_def step_def)
  qed
qed

text \<open>
  The exclusion also holds after each single setter call of a reaction, so it does not
  depend on the setter calls of one handler being applied together.
\<close>

lemma exclusive_within_reaction:
  assumes "lifecycle_inv w"
  shows "resultText (apply_effects (ui w) (take n (reaction eng w ev))) = None
       \<or> error (apply_effects (ui w) (take n (reaction eng w ev))) = None"
proof (cases ev)
  case (ChangeDate d)
  with assms show ?thesis
    by (auto simp: lifecycle_inv_def take_Cons split: if_splits nat.splits)
next
  case ClickSubmit
  with assms show ?thesis
    by (auto simp: lifecycle_inv_def submit_disabled_def handleSearch_def
        fetchNasaHistory_start_def take_Cons split: if_splits nat.splits)
next
  case (RequestSettled i out)
  show ?thesis
  proof (cases "i < length (in_flight w)")
    case False
    with assms RequestSettled show ?thesis
      by (auto simp: lifecycle_inv_def split: if_splits)
  next
    case True
    with assms have clean: "resultText (ui w) = None" "error (ui w) = None"
      by (auto simp: lifecycle_inv_def split: if_splits)
    from resume_shape [of out eng] show ?thesis
      using RequestSettled True clean
      by (auto simp: take_Cons split: nat.splits)
  qed
qed

lemma lifecycle_inv_run_from:
  "lifecycle_inv w \<Longrightarrow> lifecycle_inv (foldl (step eng) w evs)"
  by (induction evs arbitrary: w) (simp_all add: lifecycle_inv_step)

lemma lifecycle_inv_run: "lifecycle_inv (run eng (initial_world today) evs)"
  by (simp add: run_def lifecycle_inv_run_from lifecycle_inv_initial)

section \<open>The outcome of a search\<close>

text \<open>
  C1. When the response is ok and its body is an object whose \<^verbatim>\<open>apod\<close> property is an
  object with string \<^verbatim>\<open>title\<close> and \<^verbatim>\<open>explanation\<close> and a \<^verbatim>\<open>url\<close>, the search leaves
  \<^verbatim>\<open>resultText\<close> equal to the title, an em-dash between two spaces, and the explanation,
  and \<^verbatim>\<open>sources\<close> equal to the one source with that url and that title, or with the
  title \<^verbatim>\<open>NASA APOD\<close> when the title is the empty string.
\<close>

theorem apod_result:
  assumes "ok r" and "payload r = Json (JObj kvs)"
    and "map_of kvs ''apod'' = Some (JObj a)"
    and "map_of a ''title'' = Some (JStr t)"
    and "map_of a ''explanation'' = Some (JStr x)"
    and "map_of a ''url'' = Some u"
  shows "resultText (search eng s date (Resolved r)) = Some (t @ '' '' @ em_dash @ '' '' @ x)
       \<and> sources (search eng s date (Resolved r)) =
           [\<lparr>uri = u, title = (if t = [] then JStr ''NASA APOD'' else JStr t)\<rparr>]"
  using assms
  by (simp add: search_def fetchNasaHistory_def fetchNasaHistory_start_def
      fetchNasaHistory_resume_def try_block_def use_data_def)

theorem apod_result_witness:
  "resultText (search sample_engine (initial_state ''2024-01-15'') ''2024-01-15''
       (respond 200 (JObj [(''apod'', JObj untitled_apod)])))
     = Some ('' '' @ em_dash @ '' A spiral galaxy'')
   \<and> sources (search sample_engine (initial_state ''2024-01-15'') ''2024-01-15''
       (respond 200 (JObj [(''apod'', JObj untitled_apod)])))
     = [\<lparr>uri = JStr ''https://apod.nasa.gov/m31.jpg'', title = JStr ''NASA APOD''\<rparr>]
   \<and> resultText (search sample_engine (initial_state ''2024-01-15'') ''2024-01-15''
       (respond 200 (JObj [(''apod'', JObj sample_apod)])))
     = Some (''Andromeda '' @ em_dash @ '' A spiral galaxy'')
   \<and> sources (search sample_engine (initial_state ''2024-01-15'') ''2024-01-15''
       (respond 200 (JObj [(''apod'', JObj sample_apod)])))
     = [\<lparr>uri = JStr ''https://apod.nasa.gov/m31.jpg'', title = JStr ''Andromeda''\<rparr>]"
  using
    apod_result [of "\<lparr>status = 200, payload = Json (JObj [(''apod'', JObj untitled_apod)])\<rparr>"
      "[(''apod'', JObj untitled_apod)]" untitled_apod "[]" "''A spiral galaxy''"
      "JStr ''https://apod.nasa.gov/m31.jpg''" sample_engine "initial_state ''2024-01-15''"
      "''2024-01-15''"]
    apod_result [of "\<lparr>status = 200, payload = Json (JObj [(''apod'', JObj sample_apod)])\<rparr>"
      "[(''apod'', JObj sample_apod)]" sample_apod "''Andromeda''" "''A spiral galaxy''"
      "JStr ''https://apod.nasa.gov/m31.jpg''" sample_engine "initial_state ''2024-01-15''"
      "''2024-01-15''"]
  by (simp add: ok_def respond_def untitled_apod_def sample_apod_def)

text \<open>
  C2. A response whose status is outside 200-299, a rejected \<^verbatim>\<open>fetch\<close> and a body that
  does not parse each leave \<^verbatim>\<open>error\<close> equal to \<^verbatim>\<open>Failed to fetch NASA data: \<close> followed by
  the failure's message (for a status, \<^verbatim>\<open>Failed with status: \<close> and the status in
  decimal, so that status 500 gives a string containing \<^verbatim>\<open>500\<close>), and leave
  \<^verbatim>\<open>resultText\<close> null and \<^verbatim>\<open>sources\<close> empty.
\<close>

theorem failure_sets_error:
  "(\<not> ok r \<longrightarrow>
      error (search eng s date (Resolved r)) =
        Some (''Failed to fetch NASA data: Failed with status: '' @ string_of_nat (status r))
      \<and> resultText (search eng s date (Resolved r)) = None
      \<and> sources (search eng s date (Resolved r)) = [])
   \<and> (status r = 500 \<longrightarrow>
        (\<exists>before after. error (search eng s date (Resolved r)) = Some (before @ ''500'' @ after)))
   \<and> (error (search eng s date (FetchRejected m)) = Some (''Failed to fetch NASA data: '' @ m)
      \<and> resultText (search eng s date (FetchRejected m)) = None
      \<and> sources (search eng s date (FetchRejected m)) = [])
   \<and> (ok r \<and> payload r = BadBody m \<longrightarrow>
        error (search eng s date (Resolved r)) = Some (''Failed to fetch NASA data: '' @ m)
      \<and> resultText (search eng s date (Resolved r)) = None
      \<and> sources (search eng s date (Resolved r)) = [])"
proof -
  have unfold: "search eng s date out =
      apply_effects (s\<lparr>isLoading := True, error := None, resultText := None, sources := []\<rparr>)
        (fetchNasaHistory_resume eng out)" for out
    by (simp add: search_def fetchNasaHistory_def fetchNasaHistory_start_def)
  have thrown: "try_block out = Inl err \<Longrightarrow>
      error (search eng s date out) = Some (''Failed to fetch NASA data: '' @ message eng err)
      \<and> resultText (search eng s date out) = None
      \<and> sources (search eng s date out) = []" for out err
    by (simp add: unfold fetchNasaHistory_resume_def)
  have status: "\<not> ok r \<Longrightarrow> try_block (Resolved r) = Inl (StatusError (status r))"
    by (simp add: try_block_def)
  have rejected: "try_block (FetchRejected m) = Inl (Rejection m)"
    by (simp add: try_block_def)
  have bad: "ok r \<Longrightarrow> payload r = BadBody m \<Longrightarrow> try_block (Resolved r) = Inl (Rejection m)"
    by (simp add: try_block_def)
  have five: "status r = 500 \<Longrightarrow>
      error (search eng s date (Resolved r)) =
        Some (''Failed to fetch NASA data: Failed with status: '' @ ''500'' @ [])"
    using thrown [OF status] by (simp add: ok_def string_of_nat_500)
  show ?thesis
    using thrown [OF status] thrown [OF rejected] thrown [OF bad] five
    by (simp del: append.simps) blast
qed

theorem failure_sets_error_witness:
  "error (search sample_engine showing_result ''2024-01-15'' (respond 500 (JObj []))) =
     Some ''Failed to fetch NASA data: Failed with status: 500''
   \<and> resultText (search sample_engine showing_result ''2024-01-15'' (respond 500 (JObj []))) = None
   \<and> sources (search sample_engine showing_result ''2024-01-15'' (respond 500 (JObj []))) = []
   \<and> error (search sample_engine showing_result ''2024-01-15''
         (Resolved \<lparr>status = 200, payload = BadBody ''Unexpected end of JSON input''\<rparr>)) =
       Some ''Failed to fetch NASA data: Unexpected end of JSON input''
   \<and> resultText (search sample_engine showing_result ''2024-01-15''
         (Resolved \<lparr>status = 200, payload = BadBody ''Unexpected end of JSON input''\<rparr>)) = None"
  using
    failure_sets_error [of "\<lparr>status = 500, payload = Json (JObj [])\<rparr>" sample_engine
      showing_result "''2024-01-15''"]
    failure_sets_error [of "\<lparr>status = 200, payload = BadBody ''Unexpected end of JSON input''\<rparr>"
      sample_engine showing_result "''2024-01-15''" "''Unexpected end of JSON input''"]
  by (simp add: ok_def respond_def string_of_nat_500)

text \<open>
  Bodies that are not objects: an array, a string, a number or a boolean has no
  \<^verbatim>\<open>apod\<close> property and takes the fallback branch, while reading \<^verbatim>\<open>apod\<close> of \<^verbatim>\<open>null\<close>
  throws inside the \<^verbatim>\<open>try\<close> block and ends in the \<^verbatim>\<open>catch\<close> clause.
\<close>

lemma non_object_body_fallback:
  assumes "ok r" and "payload r = Json d" and "d \<noteq> JNull" and "d \<noteq> JUndefined"
    and "\<And>kvs. d \<noteq> JObj kvs"
  shows "fetchNasaHistory_resume eng (Resolved r) =
           [SetResultText (Some no_data_message), SetIsLoading False]"
  using assms
  by (cases d) (auto simp: fetchNasaHistory_resume_def try_block_def use_data_def)

lemma null_body_is_an_error:
  assumes "ok r" and "payload r = Json JNull"
  shows "fetchNasaHistory_resume eng (Resolved r) =
           [ConsoleError (TypeError (PropertyOfNullish ''apod'')),
            SetError (Some (''Failed to fetch NASA data: '' @ eng (PropertyOfNullish ''apod''))),
            SetIsLoading False]"
  using assms
  by (simp add: fetchNasaHistory_resume_def try_block_def use_data_def)

text \<open>
  C5. When the response is ok and its body is an object with no \<^verbatim>\<open>apod\<close> property, the
  search leaves \<^verbatim>\<open>resultText\<close> equal to \<^verbatim>\<open>No APOD data available for this date.\<close> and
  \<^verbatim>\<open>sources\<close> empty.
\<close>

theorem no_apod_fallback:
  assumes "ok r" and "payload r = Json (JObj kvs)" and "map_of kvs ''apod'' = None"
  shows "resultText (search eng s date (Resolved r)) = Some ''No APOD data available for this date.''
       \<and> sources (search eng s date (Resolved r)) = []"
  using assms
  by (simp add: search_def fetchNasaHistory_def fetchNasaHistory_start_def
      fetchNasaHistory_resume_def try_block_def use_data_def no_data_message_def)

theorem no_apod_fallback_witness:
  "resultText (search sample_engine showing_result ''2024-01-15''
      (respond 200 (JObj [(''message'', JStr ''nothing today'')]))) =
     Some ''No APOD data available for this date.''
   \<and> sources (search sample_engine showing_result ''2024-01-15''
      (respond 200 (JObj [(''message'', JStr ''nothing today'')]))) = []"
  using no_apod_fallback [of "\<lparr>status = 200, payload = Json (JObj [(''message'', JStr ''nothing today'')])\<rparr>"
      "[(''message'', JStr ''nothing today'')]" sample_engine showing_result "''2024-01-15''"]
  by (simp add: ok_def respond_def)

text \<open>
  C10. When the response is ok and its body is an object whose \<^verbatim>\<open>apod\<close> property is
  falsy (\<^verbatim>\<open>null\<close>, \<^verbatim>\<open>false\<close>, zero or the empty string), the search performs exactly the
  effects it performs for the same body with the \<^verbatim>\<open>apod\<close> property removed:
  \<^verbatim>\<open>resultText\<close> becomes the fallback string and \<^verbatim>\<open>sources\<close> stays empty.
\<close>

theorem falsy_apod_as_absent:
  assumes "ok r" and "payload r = Json (JObj kvs)"
    and "map_of kvs ''apod'' = Some v" and "\<not> ToBoolean v"
  shows "fetchNasaHistory eng date (Resolved r) =
           fetchNasaHistory eng date
             (Resolved (r\<lparr>payload := Json (JObj (filter (\<lambda>kv. fst kv \<noteq> ''apod'') kvs))\<rparr>))
       \<and> map_of (filter (\<lambda>kv. fst kv \<noteq> ''apod'') kvs) ''apod'' = None
       \<and> resultText (search eng s date (Resolved r)) = Some ''No APOD data available for this date.''
       \<and> sources (search eng s date (Resolved r)) = []"
proof -
  have absent: "map_of (filter (\<lambda>kv. fst kv \<noteq> ''apod'') kvs) ''apod'' = None"
    by (induction kvs) auto
  have here: "fetchNasaHistory_resume eng (Resolved r) =
      [SetResultText (Some no_data_message), SetIsLoading False]"
    using assms
    by (simp add: fetchNasaHistory_resume_def try_block_def use_data_def)
  have there: "fetchNasaHistory_resume eng
      (Resolved (r\<lparr>payload := Json (JObj (filter (\<lambda>kv. fst kv \<noteq> ''apod'') kvs))\<rparr>)) =
      [SetResultText (Some no_data_message), SetIsLoading False]"
    using assms(1) absent
    by (simp add: fetchNasaHistory_resume_def try_block_def use_data_def ok_def)
  show ?thesis
    using absent
    by (simp add: search_def fetchNasaHistory_def here there fetchNasaHistory_start_def
        no_data_message_def)
qed

theorem falsy_apod_as_absent_witness:
  "fetchNasaHistory sample_engine ''2024-01-15''
      (respond 200 (JObj [(''apod'', JNull), (''note'', JStr ''none'')])) =
     fetchNasaHistory sample_engine ''2024-01-15'' (respond 200 (JObj [(''note'', JStr ''none'')]))
   \<and> resultText (search sample_engine showing_result ''2024-01-15''
        (respond 200 (JObj [(''apod'', JNull), (''note'', JStr ''none'')]))) =
       Some ''No APOD data available for this date.''
   \<and> sources (search sample_engine showing_result ''2024-01-15''
        (respond 200 (JObj [(''apod'', JNull), (''note'', JStr ''none'')]))) = []
   \<and> resultText (search sample_engine showing_result ''2024-01-15''
        (respond 200 (JObj [(''apod'', JNum True ''0'')]))) =
       Some ''No APOD data available for this date.''"
  using
    falsy_apod_as_absent [of
      "\<lparr>status = 200, payload = Json (JObj [(''apod'', JNull), (''note'', JStr ''none'')])\<rparr>"
      "[(''apod'', JNull), (''note'', JStr ''none'')]" JNull sample_engine "''2024-01-15''"
      showing_result]
    falsy_apod_as_absent [of
      "\<lparr>status = 200, payload = Json (JObj [(''apod'', JNum True ''0'')])\<rparr>"
      "[(''apod'', JNum True ''0'')]" "JNum True ''0''" sample_engine "''2024-01-15''"
      showing_result]
  by (simp add: ok_def respond_def)

section \<open>The click handler\<close>

text \<open>
  C4. Run in a state whose selected date is empty, \<^verbatim>\<open>handleSearch\<close> performs the single
  effect of setting \<^verbatim>\<open>error\<close> to \<^verbatim>\<open>Please select a valid date.\<close>: it issues no request,
  and the message is in place when the handler returns.
\<close>

theorem empty_date_submit:
  assumes "selectedDate s = []"
  shows "handleSearch s = [SetError (Some ''Please select a valid date.'')]
       \<and> requests (handleSearch s) = []
       \<and> error (apply_effects s (handleSearch s)) = Some ''Please select a valid date.''"
  using assms by (simp add: handleSearch_def)

theorem empty_date_submit_witness:
  "selectedDate showing_result = []
   \<and> requests (handleSearch showing_result) = []
   \<and> error (apply_effects showing_result (handleSearch showing_result)) =
       Some ''Please select a valid date.''"
  using empty_date_submit [of showing_result]
  by (simp add: showing_result_def)

text \<open>
  C9. Run in a state whose selected date is empty, \<^verbatim>\<open>handleSearch\<close> changes the
  \<^verbatim>\<open>error\<close> field and nothing else: \<^verbatim>\<open>resultText\<close>, \<^verbatim>\<open>sources\<close>, \<^verbatim>\<open>isLoading\<close> and
  \<^verbatim>\<open>selectedDate\<close> keep their values, so a result held from an earlier search stays.
\<close>

theorem empty_date_frame:
  assumes "selectedDate s = []"
  shows "apply_effects s (handleSearch s) = s\<lparr>error := Some ''Please select a valid date.''\<rparr>
       \<and> resultText (apply_effects s (handleSearch s)) = resultText s
       \<and> sources (apply_effects s (handleSearch s)) = sources s
       \<and> isLoading (apply_effects s (handleSearch s)) = isLoading s
       \<and> selectedDate (apply_effects s (handleSearch s)) = selectedDate s"
  using assms by (simp add: handleSearch_def)

theorem empty_date_frame_witness:
  "selectedDate showing_result = []
   \<and> resultText (apply_effects showing_result (handleSearch showing_result)) = Some ''Andromeda''
   \<and> error (apply_effects showing_result (handleSearch showing_result)) =
       Some ''Please select a valid date.''
   \<and> sources (apply_effects showing_result (handleSearch showing_result)) = []
   \<and> isLoading (apply_effects showing_result (handleSearch showing_result)) = False
   \<and> selectedDate (apply_effects showing_result (handleSearch showing_result)) = []"
  using empty_date_frame [of showing_result]
  by (simp add: showing_result_def)

text \<open>
  C6. Run in a state whose selected date is not empty, \<^verbatim>\<open>handleSearch\<close> sets
  \<^verbatim>\<open>isLoading\<close> to true before it returns and issues one request; however that request
  settles, the resumed function issues no further request and leaves \<^verbatim>\<open>isLoading\<close>
  false; and over the whole search \<^verbatim>\<open>isLoading\<close> is written twice, true at the start
  and false once at the end.
\<close>

theorem loading_once:
  assumes "selectedDate s \<noteq> []"
  shows "isLoading (apply_effects s (handleSearch s))
       \<and> requests (handleSearch s) = [''/api/discover?dob='' @ selectedDate s]
       \<and> isLoading (apply_effects s' (fetchNasaHistory_resume eng out)) = False
       \<and> requests (fetchNasaHistory_resume eng out) = []
       \<and> loading_writes (handleSearch s @ fetchNasaHistory_resume eng out) = [True, False]"
proof -
  have start: "handleSearch s = fetchNasaHistory_start (selectedDate s)"
    using assms by (simp add: handleSearch_def)
  have "isLoading (apply_effects s (handleSearch s))"
    and "requests (handleSearch s) = [''/api/discover?dob='' @ selectedDate s]"
    and "loading_writes (handleSearch s) = [True]"
    by (simp_all add: start fetchNasaHistory_start_def)
  moreover
  have "isLoading (apply_effects s' (fetchNasaHistory_resume eng out)) = False
      \<and> requests (fetchNasaHistory_resume eng out) = []
      \<and> loading_writes (fetchNasaHistory_resume eng out) = [False]"
    using resume_shape [of out eng] by auto
  ultimately show ?thesis
    by (simp add: loading_writes_append)
qed

theorem loading_once_witness:
  "selectedDate (initial_state ''2024-01-15'') \<noteq> []
   \<and> isLoading (apply_effects (initial_state ''2024-01-15'')
        (handleSearch (initial_state ''2024-01-15'')))
   \<and> isLoading (apply_effects
        (apply_effects (initial_state ''2024-01-15'') (handleSearch (initial_state ''2024-01-15'')))
        (fetchNasaHistory_resume sample_engine (respond 200 (JObj [(''apod'', JObj sample_apod)]))))
      = False
   \<and> loading_writes (handleSearch (initial_state ''2024-01-15'')
        @ fetchNasaHistory_resume sample_engine (respond 500 JNull)) = [True, False]"
  using
    loading_once [of "initial_state ''2024-01-15''"
      "apply_effects (initial_state ''2024-01-15'') (handleSearch (initial_state ''2024-01-15''))"
      sample_engine "respond 200 (JObj [(''apod'', JObj sample_apod)])"]
    loading_once [of "initial_state ''2024-01-15''" "initial_state ''2024-01-15''"
      sample_engine "respond 500 JNull"]
  by (simp add: initial_state_def)

section \<open>The page as a transition system\<close>

text \<open>
  C3. In every state the page can reach from its first render, a result and an error
  are never held together, and \<^verbatim>\<open>isLoading\<close> is true exactly while a request is in
  flight. The exclusion of result and error also holds after each single setter call of
  whatever code the next event runs.
\<close>

theorem result_error_exclusive:
  "\<not> (resultText (ui (run eng (initial_world today) evs)) \<noteq> None
        \<and> error (ui (run eng (initial_world today) evs)) \<noteq> None)
   \<and> isLoading (ui (run eng (initial_world today) evs)) =
       (in_flight (run eng (initial_world today) evs) \<noteq> [])
   \<and> \<not> (resultText (apply_effects (ui (run eng (initial_world today) evs))
              (take n (reaction eng (run eng (initial_world today) evs) ev))) \<noteq> None
        \<and> error (apply_effects (ui (run eng (initial_world today) evs))
              (take n (reaction eng (run eng (initial_world today) evs) ev))) \<noteq> None)"
proof -
  define w where "w = run eng (initial_world today) evs"
  have inv: "lifecycle_inv w"
    unfolding w_def by (rule lifecycle_inv_run)
  from inv have "\<not> (resultText (ui w) \<noteq> None \<and> error (ui w) \<noteq> None)"
    and "isLoading (ui w) = (in_flight w \<noteq> [])"
    by (auto simp: lifecycle_inv_def split: if_splits)
  moreover from exclusive_within_reaction [OF inv, of n eng ev]
  have "\<not> (resultText (apply_effects (ui w) (take n (reaction eng w ev))) \<noteq> None
          \<and> error (apply_effects (ui w) (take n (reaction eng w ev))) \<noteq> None)"
    by simp
  ultimately show ?thesis
    unfolding w_def by blast
qed

theorem result_error_exclusive_witness:
  "resultText (ui (run sample_engine (initial_world ''2024-01-15'')
      [ClickSubmit, RequestSettled 0 (respond 200 (JObj [(''apod'', JObj sample_apod)]))]))
     = Some (''Andromeda '' @ em_dash @ '' A spiral galaxy'')
   \<and> error (ui (run sample_engine (initial_world ''2024-01-15'')
      [ClickSubmit, RequestSettled 0 (respond 200 (JObj [(''apod'', JObj sample_apod)]))]))
     = None
   \<and> resultText (ui (run sample_engine (initial_world ''2024-01-15'')
      [ClickSubmit, RequestSettled 0 (respond 200 (JObj [(''apod'', JObj sample_apod)])),
       ClickSubmit, RequestSettled 0 (respond 500 JNull)]))
     = None
   \<and> error (ui (run sample_engine (initial_world ''2024-01-15'')
      [ClickSubmit, RequestSettled 0 (respond 200 (JObj [(''apod'', JObj sample_apod)])),
       ClickSubmit, RequestSettled 0 (respond 500 JNull)]))
     = Some ''Failed to fetch NASA data: Failed with status: 500''
   \<and> isLoading (ui (run sample_engine (initial_world ''2024-01-15'')
      [ClickSubmit, RequestSettled 0 (respond 200 (JObj [(''apod'', JObj sample_apod)])),
       ClickSubmit]))
   \<and> in_flight (run sample_engine (initial_world ''2024-01-15'')
      [ClickSubmit, RequestSettled 0 (respond 200 (JObj [(''apod'', JObj sample_apod)])),
       ClickSubmit])
     = [''/api/discover?dob=2024-01-15'']"
  using
    result_error_exclusive [of sample_engine "''2024-01-15''"
      "[ClickSubmit, RequestSettled 0 (respond 200 (JObj [(''apod'', JObj sample_apod)]))]"
      0 ClickSubmit]
    result_error_exclusive [of sample_engine "''2024-01-15''"
      "[ClickSubmit, RequestSettled 0 (respond 200 (JObj [(''apod'', JObj sample_apod)])),
        ClickSubmit, RequestSettled 0 (respond 500 JNull)]" 0 ClickSubmit]
  by (simp add: run_def step_def initial_world_def initial_state_def submit_disabled_def
      handleSearch_def fetchNasaHistory_start_def fetchNasaHistory_resume_def try_block_def
      use_data_def respond_def ok_def sample_apod_def string_of_nat_500)

text \<open>
  C7. In every state the page can reach, the rendered button is disabled whenever
  \<^verbatim>\<open>isLoading\<close> is true or the selected date is empty; at most one request is in flight;
  and while a request is in flight a click on the button changes nothing, so no second
  request is issued.
\<close>

theorem single_flight:
  "(isLoading (ui (run eng (initial_world today) evs))
      \<or> selectedDate (ui (run eng (initial_world today) evs)) = []
    \<longrightarrow> button_disabled (fst (AstroDate fmt m (ui (run eng (initial_world today) evs)))))
   \<and> length (in_flight (run eng (initial_world today) evs)) \<le> 1
   \<and> (in_flight (run eng (initial_world today) evs) \<noteq> []
      \<longrightarrow> step eng (run eng (initial_world today) evs) ClickSubmit
          = run eng (initial_world today) evs)"
proof -
  define w where "w = run eng (initial_world today) evs"
  have inv: "lifecycle_inv w"
    unfolding w_def by (rule lifecycle_inv_run)
  have shown: "button_disabled (fst (AstroDate fmt m (ui w))) = submit_disabled (ui w)"
    by (simp add: AstroDate_def split: prod.splits)
  have "isLoading (ui w) \<or> selectedDate (ui w) = []
      \<longrightarrow> button_disabled (fst (AstroDate fmt m (ui w)))"
    by (simp add: shown submit_disabled_def)
  moreover from inv have "length (in_flight w) \<le> 1"
    by (simp add: lifecycle_inv_def split: if_splits)
  moreover from inv have "in_flight w \<noteq> [] \<longrightarrow> step eng w ClickSubmit = w"
    by (simp add: lifecycle_inv_def submit_disabled_def step_def split: if_splits)
  ultimately show ?thesis
    unfolding w_def by blast
qed

theorem single_flight_witness:
  "isLoading (ui (run sample_engine (initial_world ''2024-01-15'') [ClickSubmit]))
   \<and> button_disabled
       (fst (AstroDate sample_fmt None
          (ui (run sample_engine (initial_world ''2024-01-15'') [ClickSubmit]))))
   \<and> in_flight (run sample_engine (initial_world ''2024-01-15'') [ClickSubmit])
       = [''/api/discover?dob=2024-01-15'']
   \<and> step sample_engine (run sample_engine (initial_world ''2024-01-15'') [ClickSubmit]) ClickSubmit
       = run sample_engine (initial_world ''2024-01-15'') [ClickSubmit]
   \<and> selectedDate (ui (run sample_engine (initial_world ''2024-01-15'') [ChangeDate []])) = []
   \<and> button_disabled
       (fst (AstroDate sample_fmt None
          (ui (run sample_engine (initial_world ''2024-01-15'') [ChangeDate []]))))"
proof -
  have loading: "isLoading (ui (run sample_engine (initial_world ''2024-01-15'') [ClickSubmit]))"
    and flying: "in_flight (run sample_engine (initial_world ''2024-01-15'') [ClickSubmit])
       = [''/api/discover?dob=2024-01-15'']"
    and cleared: "selectedDate (ui (run sample_engine (initial_world ''2024-01-15'') [ChangeDate []])) = []"
    by (simp_all add: run_def initial_world_def initial_state_def submit_disabled_def
        handleSearch_def fetchNasaHistory_start_def step_def)
  from loading flying cleared
    single_flight [of sample_engine "''2024-01-15''" "[ClickSubmit]" sample_fmt None]
    single_flight [of sample_engine "''2024-01-15''" "[ChangeDate []]" sample_fmt None]
  show ?thesis by simp
qed

section \<open>Rendering\<close>

lemma formattedResultDate_memo:
  "snd (formattedResultDate fmt m d) = Some (d, fst (formattedResultDate fmt m d))"
  by (cases m) (auto simp: formattedResultDate_def Let_def)

lemma formattedResultDate_None:
  "fst (formattedResultDate fmt None d) = (if d \<noteq> [] then fmt d else ''Selected Date'')"
  by (simp add: formattedResultDate_def Let_def)

lemma formattedResultDate_Some:
  "fst (formattedResultDate fmt (Some (d', v)) d) =
     (if d' = d then v else fst (formattedResultDate fmt None d))"
  by (simp add: formattedResultDate_def Let_def)

lemma AstroDate_memo: "snd (AstroDate fmt m s) = snd (formattedResultDate fmt m (selectedDate s))"
  by (simp add: AstroDate_def split: prod.splits)

lemma AstroDate_view:
  assumes "fst (formattedResultDate fmt m (selectedDate s)) =
           fst (formattedResultDate fmt m' (selectedDate s))"
  shows "fst (AstroDate fmt m s) = fst (AstroDate fmt m' s)"
  using assms
  by (cases "formattedResultDate fmt m (selectedDate s)";
      cases "formattedResultDate fmt m' (selectedDate s)")
    (simp add: AstroDate_def)

lemma memo_after_snoc:
  "memo_after fmt (ss @ [s]) = snd (formattedResultDate fmt (memo_after fmt ss) (selectedDate s))"
  by (simp add: memo_after_def AstroDate_memo)

lemma memo_after_fresh:
  "memo_after fmt ss = None
   \<or> (\<exists>d. memo_after fmt ss = Some (d, fst (formattedResultDate fmt None d)))"
proof (induction ss rule: rev_induct)
  case Nil
  show ?case by (simp add: memo_after_def)
next
  case (snoc s ss)
  let ?d = "selectedDate s"
  from snoc have "fst (formattedResultDate fmt (memo_after fmt ss) ?d) =
      fst (formattedResultDate fmt None ?d)"
    by (auto simp: formattedResultDate_Some)
  then have "memo_after fmt (ss @ [s]) = Some (?d, fst (formattedResultDate fmt None ?d))"
    by (simp add: memo_after_snoc formattedResultDate_memo)
  then show ?case by blast
qed

text \<open>
  C8. The rendered output is a function of the five state variables: whatever states
  the component rendered before, rendering a state gives the output that a first
  rendering of that state gives; and rendering the same state a second time, with the
  memo cell the first rendering left behind, repeats the output of the first, whatever
  the memo cell held before.
\<close>

theorem render_idempotent:
  "fst (AstroDate fmt (memo_after fmt ss) s) = fst (AstroDate fmt None s)
   \<and> fst (AstroDate fmt (snd (AstroDate fmt m s)) s) = fst (AstroDate fmt m s)"
proof
  from memo_after_fresh [of fmt ss]
  have "fst (formattedResultDate fmt (memo_after fmt ss) (selectedDate s)) =
      fst (formattedResultDate fmt None (selectedDate s))"
    by (auto simp: formattedResultDate_Some)
  then show "fst (AstroDate fmt (memo_after fmt ss) s) = fst (AstroDate fmt None s)"
    by (rule AstroDate_view)
next
  have "fst (formattedResultDate fmt (snd (AstroDate fmt m s)) (selectedDate s)) =
      fst (formattedResultDate fmt m (selectedDate s))"
    by (simp add: AstroDate_memo formattedResultDate_memo formattedResultDate_Some)
  then show "fst (AstroDate fmt (snd (AstroDate fmt m s)) s) = fst (AstroDate fmt m s)"
    by (rule AstroDate_view)
qed

theorem render_idempotent_witness:
  "fst (AstroDate sample_fmt None showing_result) =
     \<lparr>input_value = [], button_disabled = True,
      button_label = ''Search Discovery'', error_panel = None, loading_panel = False,
      result = Some \<lparr>heading = ''Discovery for Selected Date'', shown_result = ''Andromeda'',
                      citations = None\<rparr>\<rparr>
   \<and> fst (AstroDate sample_fmt (snd (AstroDate sample_fmt None showing_result)) showing_result) =
       fst (AstroDate sample_fmt None showing_result)
   \<and> fst (AstroDate sample_fmt (memo_after sample_fmt [initial_state ''2024-01-15''])
        showing_result) =
       fst (AstroDate sample_fmt None showing_result)"
proof -
  have "fst (AstroDate sample_fmt None showing_result) =
     \<lparr>input_value = [], button_disabled = True,
      button_label = ''Search Discovery'', error_panel = None, loading_panel = False,
      result = Some \<lparr>heading = ''Discovery for Selected Date'', shown_result = ''Andromeda'',
                      citations = None\<rparr>\<rparr>"
    by (simp add: AstroDate_def formattedResultDate_def showing_result_def submit_disabled_def
        shown_text_def Let_def)
  with render_idempotent [of sample_fmt "[initial_state ''2024-01-15'']" showing_result None]
  show ?thesis by simp
qed

end
